theory Spec2Isabelle
  imports Main "HOL-Library.Word"
begin

section \<open>Trusty apploader: package validator and signing-key resolver\<close>

text \<open>
  A shallow embedding of \<^verbatim>\<open>src/app/apploader/apploader_package.cpp\<close>: the function
  \<^verbatim>\<open>apploader_parse_package_metadata\<close>, which validates a CBOR application package and
  records where its ELF image and manifest lie, and the function \<^verbatim>\<open>get_key\<close>, which
  fetches a key from the hwkey service.

  Both functions rest on libraries that are not part of the program: the cppbor decoder,
  the hwkey client, the allocator and the logging macro. The decoder, the allocator and
  the service are parameters of the model; what the program does to them (calls, log
  lines) is returned as an explicit trace.
\<close>

type_synonym byte = "8 word"
type_synonym uint64_t = "64 word"
type_synonym uint32_t = "32 word"
type_synonym uint8_t = "8 word"

subsection \<open>The decoded item tree\<close>

text \<open>
  Modelled from the spec: the item tree of the structural decoder (cppbor), of which the
  source only has the calls. The spec's decoder interface lists unsigned integers, byte
  strings, arrays, maps "etc.", semantic tags with a count and a value, and byte-string
  views that are a (pointer, length) pair into the original buffer. A view's pointer is
  kept as the offset of its first byte from the start of the package buffer.
\<close>

record view =
  view_data :: nat
  view_size :: nat

datatype item =
    Uint uint64_t
  | Nint uint64_t
  | Bstr "byte list"
  | ViewBstr view
  | Tstr string
  | ViewTstr view
  | Array "item list"
  | Map "(item \<times> item) list"
  | Simple nat
  | SemanticTag uint64_t item

text \<open>A tag wraps an item; the accessors of a tagged item are those of the item it wraps.\<close>

fun semanticTagCount :: "item \<Rightarrow> nat" where
  "semanticTagCount (SemanticTag _ i) = Suc (semanticTagCount i)"
| "semanticTagCount _ = 0"

text \<open>
  \<^verbatim>\<open>semanticTag()\<close> is read by the program only when the count is 1, where it is the
  value of the only tag. On an item with no tag the decoder answers 0.
\<close>

fun semanticTag :: "item \<Rightarrow> uint64_t" where
  "semanticTag (SemanticTag t (SemanticTag t' i)) = semanticTag (SemanticTag t' i)"
| "semanticTag (SemanticTag t _) = t"
| "semanticTag _ = 0"

fun asArray :: "item \<Rightarrow> item list option" where
  "asArray (Array xs) = Some xs"
| "asArray (SemanticTag _ i) = asArray i"
| "asArray _ = None"

fun asUint :: "item \<Rightarrow> uint64_t option" where
  "asUint (Uint n) = Some n"
| "asUint (SemanticTag _ i) = asUint i"
| "asUint _ = None"

fun asMap :: "item \<Rightarrow> (item \<times> item) list option" where
  "asMap (Map kvs) = Some kvs"
| "asMap (SemanticTag _ i) = asMap i"
| "asMap _ = None"

fun asViewBstr :: "item \<Rightarrow> view option" where
  "asViewBstr (ViewBstr v) = Some v"
| "asViewBstr (SemanticTag _ i) = asViewBstr i"
| "asViewBstr _ = None"

text \<open>
  The decoder itself, \<^verbatim>\<open>cppbor::parseWithViews(package, package_size)\<close>, is a parameter:
  it answers the root item (or null), the position where it stopped and an error string.
\<close>

type_synonym parser = "byte list \<Rightarrow> item option \<times> nat \<times> string"

subsection \<open>The output structure and the log\<close>

text \<open>
  \<^verbatim>\<open>struct apploader_package_metadata\<close>: the four fields the function writes. Its
  declaration is in a header the sources do not have, so the functions below work on the
  record scheme: whatever other fields the structure has are carried along untouched.
\<close>

record apploader_package_metadata =
  elf_start :: nat
  elf_size :: nat
  manifest_start :: nat
  manifest_size :: nat

text \<open>One constructor for each \<^verbatim>\<open>TLOGE\<close> line of the function, with the values it prints
  (an item stands for the type code printed for it).\<close>

datatype tloge =
    CppborError string
  | InvalidTagCount nat
  | InvalidTag uint64_t
  | ExpectedArray
  | EmptyArray
  | InvalidVersionType item
  | InvalidVersion uint64_t uint64_t
  | InvalidElementCount nat
  | InvalidHeadersType item
  | InvalidLabelType item
  | InvalidLabel uint64_t
  | InvalidElfType item
  | InvalidManifestType item

subsection \<open>Reading the headers\<close>

text \<open>
  The \<^verbatim>\<open>switch (label)\<close> of the header loop has a \<^verbatim>\<open>default:\<close> branch and no
  \<^verbatim>\<open>case\<close>: every label logs and returns false. \<open>Some\<close> is that return, \<open>None\<close> would
  be falling out of the switch to the next entry.
\<close>

definition header_label_switch :: "uint64_t \<Rightarrow> tloge option" where
  "header_label_switch label = Some (InvalidLabel label)"

fun read_headers :: "(item \<times> item) list \<Rightarrow> tloge option" where
  "read_headers [] = None"
| "read_headers ((label_item, value_item) # rest) =
     (case asUint label_item of
        None \<Rightarrow> Some (InvalidLabelType label_item)
      | Some label \<Rightarrow>
          (case header_label_switch label of
             Some e \<Rightarrow> Some e
           | None \<Rightarrow> read_headers rest))"

subsection \<open>apploader\_parse\_package\_metadata\<close>

text \<open>
  The two constants \<^verbatim>\<open>APPLOADER_PACKAGE_CBOR_TAG_APP\<close> and
  \<^verbatim>\<open>APPLOADER_PACKAGE_FORMAT_VERSION_CURRENT\<close> come from a header the sources do not
  have; they are parameters. The result is the returned bool, the metadata structure
  after the call and the lines logged.
\<close>

definition apploader_parse_package_metadata ::
  "parser \<Rightarrow> uint64_t \<Rightarrow> uint64_t \<Rightarrow> byte list \<Rightarrow>
   'a apploader_package_metadata_scheme \<Rightarrow>
   bool \<times> 'a apploader_package_metadata_scheme \<times> tloge list" where
  "apploader_parse_package_metadata parseWithViews TAG_APP VERSION_CURRENT package metadata =
    (case parseWithViews package of (pkg_item_opt, _, error) \<Rightarrow>
     (case pkg_item_opt of
       None \<Rightarrow> (False, metadata, [CppborError error])
     | Some pkg_item \<Rightarrow>
     if semanticTagCount pkg_item \<noteq> 1 then
       (False, metadata, [InvalidTagCount (semanticTagCount pkg_item)])
     else if semanticTag pkg_item \<noteq> TAG_APP then
       (False, metadata, [InvalidTag (semanticTag pkg_item)])
     else
     (case asArray pkg_item of
       None \<Rightarrow> (False, metadata, [ExpectedArray])
     | Some pkg_array \<Rightarrow>
     if length pkg_array = 0 then (False, metadata, [EmptyArray])
     else
     (case asUint (pkg_array ! 0) of
       None \<Rightarrow> (False, metadata, [InvalidVersionType (pkg_array ! 0)])
     | Some version \<Rightarrow>
     if version \<noteq> VERSION_CURRENT then
       (False, metadata, [InvalidVersion VERSION_CURRENT version])
     else if length pkg_array \<noteq> 4 then
       (False, metadata, [InvalidElementCount (length pkg_array)])
     else
     (case asMap (pkg_array ! 1) of
       None \<Rightarrow> (False, metadata, [InvalidHeadersType (pkg_array ! 1)])
     | Some headers \<Rightarrow>
     (case read_headers headers of
       Some e \<Rightarrow> (False, metadata, [e])
     | None \<Rightarrow>
     (case asViewBstr (pkg_array ! 2) of
       None \<Rightarrow> (False, metadata, [InvalidElfType (pkg_array ! 2)])
     | Some elf \<Rightarrow>
     (case asViewBstr (pkg_array ! 3) of
       None \<Rightarrow> (False, metadata, [InvalidManifestType (pkg_array ! 3)])
     | Some manifest \<Rightarrow>
       (True,
        metadata\<lparr>elf_start := view_data elf, elf_size := view_size elf,
                 manifest_start := view_data manifest,
                 manifest_size := view_size manifest\<rparr>,
        [])))))))))"

subsection \<open>The package schema, as the specification words it\<close>

text \<open>
  A label is recognized when the switch of the header loop lets it pass.
\<close>

definition recognized_label :: "uint64_t \<Rightarrow> bool" where
  "recognized_label label = (header_label_switch label = None)"

definition header_entry_ok :: "item \<times> item \<Rightarrow> bool" where
  "header_entry_ok kv =
     (case asUint (fst kv) of None \<Rightarrow> False | Some label \<Rightarrow> recognized_label label)"

text \<open>
  The specification's schema, not taken from the code: the buffer decodes; the root
  carries exactly one tag, the package tag; it is an array of exactly four elements; the
  first is an unsigned integer equal to the supported version; the second is a map whose
  keys are all recognized labels; the third and the fourth are byte-string views.
\<close>

definition spec_package_ok :: "parser \<Rightarrow> uint64_t \<Rightarrow> uint64_t \<Rightarrow> byte list \<Rightarrow> bool" where
  "spec_package_ok parseWithViews TAG_APP VERSION_CURRENT package =
     (case fst (parseWithViews package) of
        None \<Rightarrow> False
      | Some pkg_item \<Rightarrow>
          semanticTagCount pkg_item = 1 \<and> semanticTag pkg_item = TAG_APP \<and>
          (case asArray pkg_item of
             None \<Rightarrow> False
           | Some pkg_array \<Rightarrow>
               length pkg_array = 4 \<and>
               asUint (pkg_array ! 0) = Some VERSION_CURRENT \<and>
               (case asMap (pkg_array ! 1) of
                  None \<Rightarrow> False
                | Some headers \<Rightarrow> list_all header_entry_ok headers) \<and>
               asViewBstr (pkg_array ! 2) \<noteq> None \<and>
               asViewBstr (pkg_array ! 3) \<noteq> None))"

subsection \<open>get\_key\<close>

text \<open>\<^verbatim>\<open>constexpr uint32_t kMaximumKeySize = 128;\<close>\<close>

definition kMaximumKeySize :: uint32_t where
  "kMaximumKeySize = 128"

text \<open>
  \<^verbatim>\<open>std::to_string\<close> of an unsigned value: its decimal digits, most significant first,
  with no leading zero.
\<close>

definition digit_char :: "nat \<Rightarrow> char" where
  "digit_char d = char_of (48 + d)"

function to_string :: "nat \<Rightarrow> string" where
  "to_string n =
     (if n < 10 then [digit_char n]
      else to_string (n div 10) @ [digit_char (n mod 10)])"
  by pat_completeness auto
termination
  by (relation "measure (\<lambda>n. n)") auto

declare to_string.simps [simp del]

text \<open>
  \<^verbatim>\<open>key_slot.c_str()\<close> hands the service a C string: the service reads the name up to
  the first NUL character.
\<close>

definition c_str :: "string \<Rightarrow> string" where
  "c_str s = takeWhile (\<lambda>c. c \<noteq> CHR 0x00) s"

text \<open>The local \<^verbatim>\<open>std::string key_slot\<close> of \<^verbatim>\<open>get_key\<close>, as built by its four statements.\<close>

definition key_slot :: "string \<Rightarrow> uint8_t \<Rightarrow> string" where
  "key_slot op key_id =
     ''com.android.trusty.apploader.'' @ op @ ''.key.'' @ to_string (unat key_id)"

text \<open>
  The world outside the function. \<open>new_nothrow n\<close> is \<^verbatim>\<open>new (std::nothrow) uint8_t[n]\<close>:
  null, or a buffer with whatever bytes the allocator left in it. \<open>hwkey_open\<close> is the
  value the call \<^verbatim>\<open>hwkey_open()\<close> returns, a session handle or a negative status.
  \<open>hwkey_get_keyslot_data\<close> takes the session, the slot name, the buffer and the size
  bound behind \<^verbatim>\<open>&key_size\<close>, and answers its status, the buffer and the size it
  leaves behind.
\<close>

type_synonym hwkey_session_t = "32 word"

record world =
  new_nothrow :: "nat \<Rightarrow> byte list option"
  hwkey_open :: int
  hwkey_get_keyslot_data ::
    "hwkey_session_t \<Rightarrow> string \<Rightarrow> byte list \<Rightarrow> uint32_t \<Rightarrow> int \<times> byte list \<times> uint32_t"

text \<open>What a call of \<^verbatim>\<open>get_key\<close> does to the world, in order: the allocation it asks
  for, the calls it makes to the service, and the lines it logs.\<close>

datatype effect =
    New nat
  | Open int
  | GetKeyslotData hwkey_session_t string uint32_t
  | Close hwkey_session_t
  | LogFailedAlloc
  | LogFailedConnect int
  | LogFailedGetKey uint8_t int

text \<open>
  The returned tuple is the buffer (\<open>None\<close> for the null pointer) and a size; \<^verbatim>\<open>return {}\<close>
  is the null pointer with size 0. \<^verbatim>\<open>long rc\<close> is an \<open>int\<close>: only its sign is read
  before the cast to the 32-bit session handle.
\<close>

definition get_key ::
  "world \<Rightarrow> string \<Rightarrow> uint8_t \<Rightarrow> (byte list option \<times> nat) \<times> effect list" where
  "get_key w op key_id =
    (let key_size = kMaximumKeySize in
     (case new_nothrow w (unat key_size) of
        None \<Rightarrow> ((None, 0), [New (unat key_size), LogFailedAlloc])
      | Some result \<Rightarrow>
        (let rc = hwkey_open w in
         if rc < 0 then
           ((None, 0), [New (unat key_size), Open rc, LogFailedConnect rc])
         else
           (let hwkey_session = (word_of_int rc :: hwkey_session_t) in
            (case hwkey_get_keyslot_data w hwkey_session (c_str (key_slot op key_id)) result key_size of
               (rc', result', key_size') \<Rightarrow>
                 if rc' < 0 then
                   ((None, 0),
                    [New (unat key_size), Open rc,
                     GetKeyslotData hwkey_session (c_str (key_slot op key_id)) key_size,
                     Close hwkey_session, LogFailedGetKey key_id rc'])
                 else
                   ((Some result', unat key_size'),
                    [New (unat key_size), Open rc,
                     GetKeyslotData hwkey_session (c_str (key_slot op key_id)) key_size,
                     Close hwkey_session]))))))"

text \<open>
  A mock key store that counts: it keeps the sessions that are open, adds one when an
  open succeeds, removes it when it is closed, and fails (\<open>None\<close>) when a session that
  is not open is closed.
\<close>

fun mock_step :: "hwkey_session_t list \<Rightarrow> effect \<Rightarrow> hwkey_session_t list option" where
  "mock_step ss (Open rc) = (if rc < 0 then Some ss else Some (word_of_int rc # ss))"
| "mock_step ss (Close s) = (if s \<in> set ss then Some (remove1 s ss) else None)"
| "mock_step ss _ = Some ss"

fun mock_run :: "hwkey_session_t list \<Rightarrow> effect list \<Rightarrow> hwkey_session_t list option" where
  "mock_run ss [] = Some ss"
| "mock_run ss (e # es) =
     (case mock_step ss e of None \<Rightarrow> None | Some ss' \<Rightarrow> mock_run ss' es)"

text \<open>The slot names and the size bounds the service was asked with, in order.\<close>

fun queried_slots :: "effect list \<Rightarrow> string list" where
  "queried_slots [] = []"
| "queried_slots (GetKeyslotData s name k # es) = name # queried_slots es"
| "queried_slots (_ # es) = queried_slots es"

fun size_bounds :: "effect list \<Rightarrow> uint32_t list" where
  "size_bounds [] = []"
| "size_bounds (GetKeyslotData s name k # es) = k # size_bounds es"
| "size_bounds (_ # es) = size_bounds es"

text \<open>
  The service's in/out contract on the size: a fetch that succeeds leaves behind a size
  that is at most the bound it was given.
\<close>

definition in_out_contract :: "world \<Rightarrow> bool" where
  "in_out_contract w =
     (\<forall>s name buf k. case hwkey_get_keyslot_data w s name buf k of
        (rc, buf', k') \<Rightarrow> rc < 0 \<or> unat k' \<le> unat k)"

fun is_Open :: "effect \<Rightarrow> bool" where
  "is_Open (Open _) = True"
| "is_Open _ = False"

fun is_Close :: "effect \<Rightarrow> bool" where
  "is_Close (Close _) = True"
| "is_Close _ = False"

subsection \<open>Reading decimal strings back\<close>

definition is_digit :: "char \<Rightarrow> bool" where
  "is_digit c = (48 \<le> (of_char c :: nat) \<and> (of_char c :: nat) \<le> 57)"

definition decimal_value :: "string \<Rightarrow> nat" where
  "decimal_value s = foldl (\<lambda>acc c. 10 * acc + (of_char c - 48)) 0 s"

subsection \<open>Example inputs\<close>

text \<open>
  A package of 15 bytes: tag 65536, an array of four elements, version 1, an empty map,
  a byte string of three bytes at offset 9 and one of two bytes at offset 13; and the
  item tree a decoder with views makes of it.
\<close>

definition example_package :: "byte list" where
  "example_package =
     [0xDA, 0x00, 0x01, 0x00, 0x00, 0x84, 0x01, 0xA0, 0x43, 0x7F, 0x45, 0x4C, 0x42, 0x01, 0x02]"

definition example_item :: item where
  "example_item =
     SemanticTag 65536
       (Array [Uint 1, Map [], ViewBstr \<lparr>view_data = 9, view_size = 3\<rparr>,
               ViewBstr \<lparr>view_data = 13, view_size = 2\<rparr>])"

text \<open>A decoder that answers a given item for every buffer.\<close>

definition decoder_of :: "item \<Rightarrow> parser" where
  "decoder_of i = (\<lambda>package. (Some i, length package, []))"

definition zeroed :: apploader_package_metadata where
  "zeroed = \<lparr>elf_start = 0, elf_size = 0, manifest_start = 0, manifest_size = 0\<rparr>"

text \<open>
  A world where the allocation succeeds, the service opens session 1 and holds a key of
  32 bytes in every slot, which it hands out when the size bound allows.
\<close>

definition example_world :: world where
  "example_world =
     \<lparr>new_nothrow = (\<lambda>n. Some (replicate n 0)),
      hwkey_open = 1,
      hwkey_get_keyslot_data =
        (\<lambda>s name buf k.
           if 32 \<le> unat k then (0, replicate 32 0xAA @ drop 32 buf, 32) else (- 1, buf, k))\<rparr>"

section \<open>Properties of the package validator\<close>

lemma read_headers_None_iff:
  "read_headers headers = None \<longleftrightarrow> list_all header_entry_ok headers"
  by (induction headers rule: read_headers.induct)
     (auto simp: header_entry_ok_def recognized_label_def split: option.splits)

lemma read_headers_Some:
  "read_headers headers = Some e \<Longrightarrow> \<not> list_all header_entry_ok headers"
  using read_headers_None_iff [of headers] by simp

lemma read_headers_nonempty: "read_headers (h # hs) \<noteq> None"
  by (cases h) (simp add: header_label_switch_def split: option.splits)

lemma read_headers_None_empty: "read_headers hs = None \<Longrightarrow> hs = []"
  using read_headers_nonempty by (cases hs) auto

text \<open>The function returns true exactly on the packages the specification's schema admits.\<close>

lemma parse_success_iff:
  "fst (apploader_parse_package_metadata parseWithViews TAG_APP VERSION_CURRENT package metadata) \<longleftrightarrow>
   spec_package_ok parseWithViews TAG_APP VERSION_CURRENT package"
  by (auto simp: apploader_parse_package_metadata_def spec_package_ok_def read_headers_None_iff
      split: prod.splits option.splits if_splits dest: read_headers_Some)

text \<open>A call that returns false has logged one line and left the metadata as it was.\<close>

lemma parse_false_shape:
  assumes "\<not> fst (apploader_parse_package_metadata parseWithViews TAG_APP VERSION_CURRENT package metadata)"
  shows "\<exists>line. apploader_parse_package_metadata parseWithViews TAG_APP VERSION_CURRENT package metadata =
           (False, metadata, [line])"
  using assms
  by (auto simp: apploader_parse_package_metadata_def split: prod.splits option.splits if_splits)

text \<open>
  C1. When the buffer decodes to an item with exactly one tag, the package tag, whose
  array has the four elements version (an unsigned integer equal to the supported
  version), headers (an empty map), contents and manifest (byte-string views), the
  function returns true, logs nothing, and the metadata holds the start and the size of
  the decoder's two views: the same positions in the input buffer, no bytes copied. Any
  other field of the structure is left as it was.
\<close>

theorem parse_valid_package_views:
  assumes "parseWithViews package = (Some pkg_item, pos, err)"
    and "semanticTagCount pkg_item = 1"
    and "semanticTag pkg_item = TAG_APP"
    and "asArray pkg_item = Some [version, headers, contents, manifest]"
    and "asUint version = Some VERSION_CURRENT"
    and "asMap headers = Some []"
    and "asViewBstr contents = Some elf_view"
    and "asViewBstr manifest = Some manifest_view"
  shows "apploader_parse_package_metadata parseWithViews TAG_APP VERSION_CURRENT package metadata =
     (True,
      metadata\<lparr>elf_start := view_data elf_view, elf_size := view_size elf_view,
               manifest_start := view_data manifest_view,
               manifest_size := view_size manifest_view\<rparr>,
      [])"
  using assms by (simp add: apploader_parse_package_metadata_def)

theorem parse_valid_package_views_witness:
  "apploader_parse_package_metadata (decoder_of example_item) 65536 1 example_package zeroed =
     (True, \<lparr>elf_start = 9, elf_size = 3, manifest_start = 13, manifest_size = 2\<rparr>, []) \<and>
   take 3 (drop 9 example_package) = [0x7F, 0x45, 0x4C] \<and>
   take 2 (drop 13 example_package) = [0x01, 0x02]"
  using parse_valid_package_views [where parseWithViews = "decoder_of example_item"
      and package = example_package and pkg_item = example_item and pos = 15 and err = "[]"
      and TAG_APP = 65536 and VERSION_CURRENT = 1
      and version = "Uint 1" and headers = "Map []"
      and contents = "ViewBstr \<lparr>view_data = 9, view_size = 3\<rparr>"
      and manifest = "ViewBstr \<lparr>view_data = 13, view_size = 2\<rparr>"
      and elf_view = "\<lparr>view_data = 9, view_size = 3\<rparr>"
      and manifest_view = "\<lparr>view_data = 13, view_size = 2\<rparr>"
      and metadata = zeroed]
  by (simp add: decoder_of_def example_item_def example_package_def zeroed_def)

text \<open>
  C2. Whenever validation fails, be it that the package is not one the schema admits
  (decode error, tag, type, version, element count or header label) or that the function
  returns false, the function returns false, logs one line, and the metadata structure
  after the call is the one the caller supplied.
\<close>

theorem parse_failure_leaves_metadata:
  assumes "\<not> spec_package_ok parseWithViews TAG_APP VERSION_CURRENT package \<or>
           \<not> fst (apploader_parse_package_metadata parseWithViews TAG_APP VERSION_CURRENT package metadata)"
  shows "\<exists>line. apploader_parse_package_metadata parseWithViews TAG_APP VERSION_CURRENT package metadata =
           (False, metadata, [line])"
  using assms parse_false_shape by (auto simp: parse_success_iff)

theorem parse_failure_leaves_metadata_witness:
  "\<not> spec_package_ok (decoder_of (SemanticTag 65536
        (Array [Uint 1, Map [], ViewBstr \<lparr>view_data = 9, view_size = 3\<rparr>, Uint 7])))
      65536 1 example_package \<and>
   apploader_parse_package_metadata (decoder_of (SemanticTag 65536
        (Array [Uint 1, Map [], ViewBstr \<lparr>view_data = 9, view_size = 3\<rparr>, Uint 7])))
      65536 1 example_package
      \<lparr>elf_start = 100, elf_size = 20, manifest_start = 200, manifest_size = 30\<rparr> =
     (False, \<lparr>elf_start = 100, elf_size = 20, manifest_start = 200, manifest_size = 30\<rparr>,
      [InvalidManifestType (Uint 7)])"
  using parse_failure_leaves_metadata [where parseWithViews = "decoder_of (SemanticTag 65536
        (Array [Uint 1, Map [], ViewBstr \<lparr>view_data = 9, view_size = 3\<rparr>, Uint 7]))"
      and TAG_APP = 65536 and VERSION_CURRENT = 1 and package = example_package
      and metadata = "\<lparr>elf_start = 100, elf_size = 20, manifest_start = 200, manifest_size = 30\<rparr>"]
  by (simp add: spec_package_ok_def apploader_parse_package_metadata_def decoder_of_def)

text \<open>
  C3. A package that passes the tag checks, is a non-empty array, and whose element 0 is
  an unsigned integer other than the supported version is rejected with the line about
  the version, whatever the number of its elements: the version is checked before the
  element count.
\<close>

theorem parse_version_before_count:
  assumes "parseWithViews package = (Some pkg_item, pos, err)"
    and "semanticTagCount pkg_item = 1"
    and "semanticTag pkg_item = TAG_APP"
    and "asArray pkg_item = Some pkg_array"
    and "pkg_array \<noteq> []"
    and "asUint (pkg_array ! 0) = Some version"
    and "version \<noteq> VERSION_CURRENT"
  shows "apploader_parse_package_metadata parseWithViews TAG_APP VERSION_CURRENT package metadata =
     (False, metadata, [InvalidVersion VERSION_CURRENT version])"
  using assms by (simp add: apploader_parse_package_metadata_def)

theorem parse_version_before_count_witness:
  "length [Uint 2, Map []] \<noteq> 4 \<and>
   apploader_parse_package_metadata (decoder_of (SemanticTag 65536 (Array [Uint 2, Map []]))) 65536 1
     [0xDA, 0x00, 0x01, 0x00, 0x00, 0x82, 0x02, 0xA0] zeroed =
     (False, zeroed, [InvalidVersion 1 2])"
  using parse_version_before_count [where parseWithViews =
        "decoder_of (SemanticTag 65536 (Array [Uint 2, Map []]))"
      and TAG_APP = 65536 and VERSION_CURRENT = 1
      and package = "[0xDA, 0x00, 0x01, 0x00, 0x00, 0x82, 0x02, 0xA0]"
      and pkg_item = "SemanticTag 65536 (Array [Uint 2, Map []])" and pos = 8 and err = "[]"
      and pkg_array = "[Uint 2, Map []]" and version = 2 and metadata = zeroed]
  by (simp add: decoder_of_def)

text \<open>
  C4, as stated, fails: the function's result is a bool, and an item with no tag, one with
  two tags and one with a single wrong tag all get the same result, false with the
  metadata untouched.
\<close>

theorem parse_tag_rejections_same_result:
  "fst (apploader_parse_package_metadata (decoder_of (Array [])) 65536 1 [0x80] zeroed) =
   fst (apploader_parse_package_metadata
          (decoder_of (SemanticTag 65536 (SemanticTag 65536 (Array [])))) 65536 1
          [0xDA, 0x00, 0x01, 0x00, 0x00, 0xDA, 0x00, 0x01, 0x00, 0x00, 0x80] zeroed) \<and>
   fst (apploader_parse_package_metadata (decoder_of (Array [])) 65536 1 [0x80] zeroed) =
   fst (apploader_parse_package_metadata (decoder_of (SemanticTag 7 (Array []))) 65536 1
          [0xC7, 0x80] zeroed) \<and>
   fst (snd (apploader_parse_package_metadata (decoder_of (Array [])) 65536 1 [0x80] zeroed)) =
   fst (snd (apploader_parse_package_metadata
          (decoder_of (SemanticTag 65536 (SemanticTag 65536 (Array [])))) 65536 1
          [0xDA, 0x00, 0x01, 0x00, 0x00, 0xDA, 0x00, 0x01, 0x00, 0x00, 0x80] zeroed)) \<and>
   fst (snd (apploader_parse_package_metadata (decoder_of (Array [])) 65536 1 [0x80] zeroed)) =
   fst (snd (apploader_parse_package_metadata (decoder_of (SemanticTag 7 (Array []))) 65536 1
          [0xC7, 0x80] zeroed))"
  by (simp add: apploader_parse_package_metadata_def decoder_of_def)

text \<open>
  C4, amended. For every buffer that decodes, the function returns true only for an item
  carrying exactly one tag, equal to the package tag. An item whose tag count is not 1
  (no tag, or more than one) is rejected by one check, and one whose single tag has
  another value by the next; all of them return false with the metadata untouched, and
  they differ only in the line logged: the count found, or the tag found.
\<close>

theorem parse_tag_checks:
  assumes "parseWithViews package = (Some pkg_item, pos, err)"
  shows "(semanticTagCount pkg_item \<noteq> 1 \<longrightarrow>
            apploader_parse_package_metadata parseWithViews TAG_APP VERSION_CURRENT package metadata =
              (False, metadata, [InvalidTagCount (semanticTagCount pkg_item)])) \<and>
         (semanticTagCount pkg_item = 1 \<and> semanticTag pkg_item \<noteq> TAG_APP \<longrightarrow>
            apploader_parse_package_metadata parseWithViews TAG_APP VERSION_CURRENT package metadata =
              (False, metadata, [InvalidTag (semanticTag pkg_item)])) \<and>
         (fst (apploader_parse_package_metadata parseWithViews TAG_APP VERSION_CURRENT package metadata) \<longrightarrow>
            semanticTagCount pkg_item = 1 \<and> semanticTag pkg_item = TAG_APP)"
  using assms
  by (auto simp: apploader_parse_package_metadata_def split: option.splits if_splits)

theorem parse_tag_checks_witness:
  "apploader_parse_package_metadata (decoder_of (Array [])) 65536 1 [0x80] zeroed =
     (False, zeroed, [InvalidTagCount 0]) \<and>
   apploader_parse_package_metadata
     (decoder_of (SemanticTag 65536 (SemanticTag 65536 (Array [])))) 65536 1
     [0xDA, 0x00, 0x01, 0x00, 0x00, 0xDA, 0x00, 0x01, 0x00, 0x00, 0x80] zeroed =
     (False, zeroed, [InvalidTagCount 2]) \<and>
   apploader_parse_package_metadata (decoder_of (SemanticTag 7 (Array []))) 65536 1
     [0xC7, 0x80] zeroed =
     (False, zeroed, [InvalidTag 7]) \<and>
   fst (apploader_parse_package_metadata (decoder_of example_item) 65536 1 example_package zeroed)"
  using
    parse_tag_checks [where parseWithViews = "decoder_of (Array [])" and package = "[0x80]"
      and pkg_item = "Array []" and pos = 1 and err = "[]"
      and TAG_APP = 65536 and VERSION_CURRENT = 1 and metadata = zeroed]
    parse_tag_checks [where parseWithViews =
        "decoder_of (SemanticTag 65536 (SemanticTag 65536 (Array [])))"
      and package = "[0xDA, 0x00, 0x01, 0x00, 0x00, 0xDA, 0x00, 0x01, 0x00, 0x00, 0x80]"
      and pkg_item = "SemanticTag 65536 (SemanticTag 65536 (Array []))" and pos = 11 and err = "[]"
      and TAG_APP = 65536 and VERSION_CURRENT = 1 and metadata = zeroed]
    parse_tag_checks [where parseWithViews = "decoder_of (SemanticTag 7 (Array []))"
      and package = "[0xC7, 0x80]"
      and pkg_item = "SemanticTag 7 (Array [])" and pos = 2 and err = "[]"
      and TAG_APP = 65536 and VERSION_CURRENT = 1 and metadata = zeroed]
  by (simp add: decoder_of_def apploader_parse_package_metadata_def example_item_def)

text \<open>
  C5. A package that passes the tag, array, version and element-count checks and whose
  element 1 is a map is rejected, with the metadata untouched, as soon as some entry of
  the map, wherever it stands and whatever the other entries are, has a key that is not
  an unsigned integer or an unsigned integer that is not a recognized label.
\<close>

theorem parse_unknown_label_rejected:
  assumes "parseWithViews package = (Some pkg_item, pos, err)"
    and "semanticTagCount pkg_item = 1"
    and "semanticTag pkg_item = TAG_APP"
    and "asArray pkg_item = Some pkg_array"
    and "length pkg_array = 4"
    and "asUint (pkg_array ! 0) = Some VERSION_CURRENT"
    and "asMap (pkg_array ! 1) = Some headers"
    and "(label_item, value_item) \<in> set headers"
    and "asUint label_item = None \<or>
         (\<exists>label. asUint label_item = Some label \<and> \<not> recognized_label label)"
  shows "\<exists>line. apploader_parse_package_metadata parseWithViews TAG_APP VERSION_CURRENT package metadata =
           (False, metadata, [line])"
proof -
  have "\<not> header_entry_ok (label_item, value_item)"
    using assms(9) by (auto simp: header_entry_ok_def)
  with assms(8) have "\<not> list_all header_entry_ok headers"
    by (auto simp: list_all_iff)
  then obtain line where "read_headers headers = Some line"
    by (auto simp: read_headers_None_iff [symmetric])
  with assms(1-7) show ?thesis
    by (simp add: apploader_parse_package_metadata_def)
qed

theorem parse_unknown_label_rejected_witness:
  "asUint (Tstr ''x'') = None \<and> \<not> recognized_label 1 \<and>
   apploader_parse_package_metadata
     (decoder_of (SemanticTag 65536
        (Array [Uint 1, Map [(Uint 1, Uint 0), (Tstr ''x'', Uint 0)],
                ViewBstr \<lparr>view_data = 9, view_size = 3\<rparr>,
                ViewBstr \<lparr>view_data = 13, view_size = 2\<rparr>])))
     65536 1 example_package zeroed =
     (False, zeroed, [InvalidLabel 1])"
  using parse_unknown_label_rejected [where parseWithViews =
        "decoder_of (SemanticTag 65536
          (Array [Uint 1, Map [(Uint 1, Uint 0), (Tstr ''x'', Uint 0)],
                  ViewBstr \<lparr>view_data = 9, view_size = 3\<rparr>,
                  ViewBstr \<lparr>view_data = 13, view_size = 2\<rparr>]))"
      and package = example_package
      and pkg_item = "SemanticTag 65536
          (Array [Uint 1, Map [(Uint 1, Uint 0), (Tstr ''x'', Uint 0)],
                  ViewBstr \<lparr>view_data = 9, view_size = 3\<rparr>,
                  ViewBstr \<lparr>view_data = 13, view_size = 2\<rparr>])"
      and pos = 15 and err = "[]" and TAG_APP = 65536 and VERSION_CURRENT = 1
      and pkg_array = "[Uint 1, Map [(Uint 1, Uint 0), (Tstr ''x'', Uint 0)],
                  ViewBstr \<lparr>view_data = 9, view_size = 3\<rparr>,
                  ViewBstr \<lparr>view_data = 13, view_size = 2\<rparr>]"
      and headers = "[(Uint 1, Uint 0), (Tstr ''x'', Uint 0)]"
      and label_item = "Tstr ''x''" and value_item = "Uint 0" and metadata = zeroed]
  by (simp add: decoder_of_def apploader_parse_package_metadata_def recognized_label_def
      header_label_switch_def)

text \<open>
  C10. The switch of the header loop rejects every label, so no label is recognized; the
  function returns true only when element 1 of the package is a map with no entry, and a
  package whose element 1 is a map with an entry is rejected.
\<close>

theorem parse_success_only_empty_headers:
  "header_label_switch label \<noteq> None \<and> \<not> recognized_label label \<and>
   (fst (apploader_parse_package_metadata parseWithViews TAG_APP VERSION_CURRENT package metadata) \<longrightarrow>
      (\<exists>pkg_item pkg_array. fst (parseWithViews package) = Some pkg_item \<and>
         asArray pkg_item = Some pkg_array \<and> length pkg_array = 4 \<and>
         asMap (pkg_array ! 1) = Some [])) \<and>
   (\<forall>pkg_item pkg_array entry entries.
      fst (parseWithViews package) = Some pkg_item \<and> asArray pkg_item = Some pkg_array \<and>
      asMap (pkg_array ! 1) = Some (entry # entries) \<longrightarrow>
      \<not> fst (apploader_parse_package_metadata parseWithViews TAG_APP VERSION_CURRENT package metadata))"
proof -
  have "\<exists>pkg_item pkg_array. fst (parseWithViews package) = Some pkg_item \<and>
         asArray pkg_item = Some pkg_array \<and> length pkg_array = 4 \<and>
         asMap (pkg_array ! 1) = Some []"
    if "fst (apploader_parse_package_metadata parseWithViews TAG_APP VERSION_CURRENT package metadata)"
    using that
    by (auto simp: apploader_parse_package_metadata_def
        split: prod.splits option.splits if_splits dest: read_headers_None_empty)
  then show ?thesis
    by (auto simp: header_label_switch_def recognized_label_def)
qed

theorem parse_success_only_empty_headers_witness:
  "fst (apploader_parse_package_metadata (decoder_of example_item) 65536 1 example_package zeroed) \<and>
   asMap (Map []) = Some [] \<and>
   \<not> fst (apploader_parse_package_metadata
     (decoder_of (SemanticTag 65536
        (Array [Uint 1, Map [(Uint 1, Uint 0)],
                ViewBstr \<lparr>view_data = 9, view_size = 3\<rparr>,
                ViewBstr \<lparr>view_data = 13, view_size = 2\<rparr>])))
     65536 1 example_package zeroed)"
  using
    parse_success_only_empty_headers [where parseWithViews = "decoder_of example_item"
      and package = example_package and TAG_APP = 65536 and VERSION_CURRENT = 1
      and metadata = zeroed and label = 1]
    parse_success_only_empty_headers [where parseWithViews =
        "decoder_of (SemanticTag 65536
          (Array [Uint 1, Map [(Uint 1, Uint 0)],
                  ViewBstr \<lparr>view_data = 9, view_size = 3\<rparr>,
                  ViewBstr \<lparr>view_data = 13, view_size = 2\<rparr>]))"
      and package = example_package and TAG_APP = 65536 and VERSION_CURRENT = 1
      and metadata = zeroed and label = 1]
  by (simp add: decoder_of_def example_item_def apploader_parse_package_metadata_def)

section \<open>Properties of the key resolver\<close>

subsection \<open>The slot name\<close>

lemma of_char_digit_char: "d < 10 \<Longrightarrow> of_char (digit_char d) = 48 + d"
  by (simp add: digit_char_def)

text \<open>The string \<open>to_string n\<close> is the decimal form of \<open>n\<close>: reading it back gives \<open>n\<close>.\<close>

lemma decimal_value_to_string: "decimal_value (to_string n) = n"
proof (induction n rule: to_string.induct)
  case (1 n)
  show ?case
  proof (cases "n < 10")
    case True
    then show ?thesis
      by (subst to_string.simps) (simp add: decimal_value_def of_char_digit_char)
  next
    case False
    with "1" have "decimal_value (to_string (n div 10)) = n div 10"
      by simp
    with False show ?thesis
      by (subst to_string.simps) (simp add: decimal_value_def of_char_digit_char)
  qed
qed

lemma to_string_inj: "to_string m = to_string n \<Longrightarrow> m = n"
  using decimal_value_to_string by metis

lemma to_string_digits: "list_all is_digit (to_string n)"
proof (induction n rule: to_string.induct)
  case (1 n)
  show ?case
  proof (cases "n < 10")
    case True
    then show ?thesis
      by (subst to_string.simps) (simp add: is_digit_def of_char_digit_char)
  next
    case False
    with "1" have "list_all is_digit (to_string (n div 10))"
      by simp
    with False show ?thesis
      by (subst to_string.simps) (simp add: is_digit_def of_char_digit_char)
  qed
qed

lemma takeWhile_stop:
  "list_all P xs \<Longrightarrow> \<not> P y \<Longrightarrow> takeWhile P (xs @ y # ys) = xs"
  by (induction xs) auto

text \<open>
  The digits at the end of a slot name are those of the key id: the separator before
  them ends with a dot.
\<close>

lemma split_trailing_digits:
  assumes "list_all is_digit d"
  shows "takeWhile is_digit (rev (body @ ''.key.'' @ d)) = rev d"
proof -
  have "\<not> is_digit CHR ''.''"
    by (simp add: is_digit_def)
  moreover have "list_all is_digit (rev d)"
    using assms by (simp add: list_all_iff)
  ultimately have "takeWhile is_digit (rev d @ CHR ''.'' # (''yek.'' @ rev body)) = rev d"
    by (rule takeWhile_stop [rotated])
  then show ?thesis
    by simp
qed

lemma key_slot_inj:
  assumes "key_slot op key_id = key_slot op' key_id'"
  shows "op = op' \<and> key_id = key_id'"
proof -
  let ?d = "to_string (unat key_id)" and ?d' = "to_string (unat key_id')"
  from assms have eq: "op @ ''.key.'' @ ?d = op' @ ''.key.'' @ ?d'"
    by (simp add: key_slot_def)
  then have "takeWhile is_digit (rev (op @ ''.key.'' @ ?d)) =
             takeWhile is_digit (rev (op' @ ''.key.'' @ ?d'))"
    by (rule arg_cong)
  then have d: "?d = ?d'"
    by (simp only: split_trailing_digits [OF to_string_digits] rev_is_rev_conv)
  then have "unat key_id = unat key_id'"
    by (rule to_string_inj)
  then have k: "key_id = key_id'"
    by (simp add: word_unat_eq_iff)
  from eq d have "op = op'"
    by simp
  with k show ?thesis
    by simp
qed

lemma c_str_no_nul: "CHR 0x00 \<notin> set s \<Longrightarrow> c_str s = s"
  by (auto simp: c_str_def)

lemma to_string_no_nul: "CHR 0x00 \<notin> set (to_string n)"
proof
  assume "CHR 0x00 \<in> set (to_string n)"
  with to_string_digits [of n] have "is_digit (CHR 0x00)"
    by (simp add: list_all_iff)
  then show False
    by (simp add: is_digit_def)
qed

lemma key_slot_no_nul: "CHR 0x00 \<notin> set op \<Longrightarrow> CHR 0x00 \<notin> set (key_slot op key_id)"
  using to_string_no_nul by (simp add: key_slot_def)

lemma c_str_key_slot:
  "CHR 0x00 \<notin> set op \<Longrightarrow> c_str (key_slot op key_id) = key_slot op key_id"
  by (rule c_str_no_nul) (rule key_slot_no_nul)

text \<open>
  C7, as stated, fails for an operation string that holds a NUL character: the service
  gets \<^verbatim>\<open>key_slot.c_str()\<close>, which ends at the first NUL. For the operation made of one
  NUL and key 3 the name the service reads is the bare prefix, not the concatenation, and
  two different operations and keys are asked under one name.
\<close>

theorem get_key_slot_name_nul:
  "queried_slots (snd (get_key example_world [CHR 0x00] 3)) = [''com.android.trusty.apploader.''] \<and>
   ''com.android.trusty.apploader.'' \<noteq>
     ''com.android.trusty.apploader.'' @ [CHR 0x00] @ ''.key.'' @ ''3'' \<and>
   queried_slots (snd (get_key example_world [CHR 0x00, CHR ''a''] 3)) =
   queried_slots (snd (get_key example_world [CHR 0x00, CHR ''b''] 4))"
  by (simp add: get_key_def example_world_def kMaximumKeySize_def key_slot_def c_str_def)

text \<open>
  C7, amended. For every operation string that holds no NUL character and every key id
  (0..255), a call that reaches the key store asks it for the slot named by the prefix,
  the operation, the separator and the decimal form of the key id, and for nothing else;
  two such calls with different operations or key ids ask for different names.
\<close>

theorem get_key_slot_name:
  assumes "CHR 0x00 \<notin> set op"
  shows "queried_slots (snd (get_key w op key_id)) =
           (if new_nothrow w 128 = None \<or> hwkey_open w < 0 then []
            else [''com.android.trusty.apploader.'' @ op @ ''.key.'' @ to_string (unat key_id)]) \<and>
         decimal_value (to_string (unat key_id)) = unat key_id \<and>
         (\<forall>op' key_id'. CHR 0x00 \<notin> set op' \<longrightarrow>
            c_str (key_slot op key_id) = c_str (key_slot op' key_id') \<longrightarrow>
            op = op' \<and> key_id = key_id')"
proof -
  have "c_str (key_slot op key_id) =
        ''com.android.trusty.apploader.'' @ op @ ''.key.'' @ to_string (unat key_id)"
    using assms by (simp add: c_str_key_slot) (simp add: key_slot_def)
  then have "queried_slots (snd (get_key w op key_id)) =
           (if new_nothrow w 128 = None \<or> hwkey_open w < 0 then []
            else [''com.android.trusty.apploader.'' @ op @ ''.key.'' @ to_string (unat key_id)])"
    by (simp add: get_key_def kMaximumKeySize_def Let_def split: option.splits prod.splits)
  moreover have "op = op' \<and> key_id = key_id'"
    if "CHR 0x00 \<notin> set op'" and "c_str (key_slot op key_id) = c_str (key_slot op' key_id')"
    for op' key_id'
    using that assms key_slot_inj [of op key_id op' key_id'] by (simp add: c_str_key_slot)
  ultimately show ?thesis
    by (simp add: decimal_value_to_string)
qed

theorem get_key_slot_name_witness:
  "CHR 0x00 \<notin> set ''decrypt'' \<and>
   queried_slots (snd (get_key example_world ''decrypt'' 3)) =
     [''com.android.trusty.apploader.decrypt.key.3'']"
proof -
  have no_nul: "CHR 0x00 \<notin> set ''decrypt''"
    by simp
  have three: "to_string 3 = ''3''"
    by code_simp
  have "queried_slots (snd (get_key example_world ''decrypt'' 3)) =
          (if new_nothrow example_world 128 = None \<or> hwkey_open example_world < 0 then []
           else [''com.android.trusty.apploader.'' @ ''decrypt'' @ ''.key.'' @
                 to_string (unat (3 :: uint8_t))])"
    using get_key_slot_name [OF no_nul, of example_world 3] by (rule conjunct1)
  then show ?thesis
    by (simp add: example_world_def three)
qed

subsection \<open>Sessions, the size bound and the failures\<close>

text \<open>
  C6. Run against the counting mock, the calls of \<^verbatim>\<open>get_key\<close> never close a session
  that is not open and leave no session open at the end, on every path; the function
  calls \<^verbatim>\<open>hwkey_open\<close> once, or not at all when the allocation fails, and
  \<^verbatim>\<open>hwkey_close\<close> once when the open succeeded and not at all otherwise.
\<close>

theorem get_key_sessions_closed:
  "mock_run [] (snd (get_key w op key_id)) = Some [] \<and>
   length (filter is_Open (snd (get_key w op key_id))) =
     (if new_nothrow w 128 = None then 0 else 1) \<and>
   length (filter is_Close (snd (get_key w op key_id))) =
     (if new_nothrow w 128 = None \<or> hwkey_open w < 0 then 0 else 1)"
  by (simp add: get_key_def kMaximumKeySize_def Let_def split: option.splits prod.splits)

text \<open>
  C8. The maximum key size is 128; a call asks the allocator for 128 bytes and gives the
  service the size bound 128 and no other; when it succeeds it returns the buffer and
  the size the service left behind; and if the service keeps its in/out contract (a
  successful fetch leaves a size no larger than the bound), the returned size is at
  most 128.
\<close>

theorem get_key_size_bound:
  "unat kMaximumKeySize = 128 \<and>
   hd (snd (get_key w op key_id)) = New 128 \<and>
   size_bounds (snd (get_key w op key_id)) =
     (if new_nothrow w 128 = None \<or> hwkey_open w < 0 then [] else [128]) \<and>
   (\<forall>buf len. fst (get_key w op key_id) = (Some buf, len) \<longrightarrow>
      (\<exists>buf0 rc. new_nothrow w 128 = Some buf0 \<and> 0 \<le> rc \<and>
         hwkey_get_keyslot_data w (word_of_int (hwkey_open w)) (c_str (key_slot op key_id)) buf0 128 =
           (rc, buf, word_of_nat len) \<and> len < 2 ^ 32)) \<and>
   (in_out_contract w \<longrightarrow> snd (fst (get_key w op key_id)) \<le> 128)"
proof -
  have "snd (fst (get_key w op key_id)) \<le> 128" if "in_out_contract w"
  proof (cases "new_nothrow w 128")
    case None
    then show ?thesis
      by (simp add: get_key_def kMaximumKeySize_def)
  next
    case (Some buf0)
    obtain rc buf k where
      r: "hwkey_get_keyslot_data w (word_of_int (hwkey_open w)) (c_str (key_slot op key_id)) buf0 128 =
          (rc, buf, k)"
      by (cases "hwkey_get_keyslot_data w (word_of_int (hwkey_open w)) (c_str (key_slot op key_id)) buf0 128")
    from that have "rc < 0 \<or> unat k \<le> unat (128 :: uint32_t)"
      unfolding in_out_contract_def
      using r by (metis (mono_tags, lifting) case_prod_conv)
    with Some r show ?thesis
      by (auto simp: get_key_def kMaximumKeySize_def Let_def)
  qed
  moreover have "size_bounds (snd (get_key w op key_id)) =
     (if new_nothrow w 128 = None \<or> hwkey_open w < 0 then [] else [128])"
    by (simp add: get_key_def kMaximumKeySize_def Let_def split: option.splits prod.splits)
  moreover have "hd (snd (get_key w op key_id)) = New 128"
    by (simp add: get_key_def kMaximumKeySize_def Let_def split: option.splits prod.splits)
  moreover have "\<forall>buf len. fst (get_key w op key_id) = (Some buf, len) \<longrightarrow>
      (\<exists>buf0 rc. new_nothrow w 128 = Some buf0 \<and> 0 \<le> rc \<and>
         hwkey_get_keyslot_data w (word_of_int (hwkey_open w)) (c_str (key_slot op key_id)) buf0 128 =
           (rc, buf, word_of_nat len) \<and> len < 2 ^ 32)"
    using unsigned_less [where 'b = 32 and 'a = nat]
    by (auto simp: get_key_def kMaximumKeySize_def Let_def split: option.splits prod.splits if_splits)
  ultimately show ?thesis
    by (simp add: kMaximumKeySize_def)
qed

theorem get_key_size_bound_witness:
  "in_out_contract example_world \<and>
   size_bounds (snd (get_key example_world ''sign'' 1)) = [128] \<and>
   fst (get_key example_world ''sign'' 1) = (Some (replicate 32 0xAA @ replicate 96 0), 32)"
proof -
  have "in_out_contract example_world"
    by (simp add: in_out_contract_def example_world_def)
  with get_key_size_bound [where w = example_world and op = "''sign''" and key_id = 1]
  show ?thesis
    by (simp add: example_world_def get_key_def kMaximumKeySize_def)
qed

text \<open>
  C9, as stated, fails: a failed allocation, a failed open and a failed fetch all return
  the same value, the null buffer with size 0.
\<close>

theorem get_key_failures_same_value:
  "fst (get_key (example_world\<lparr>new_nothrow := \<lambda>n. None\<rparr>) ''sign'' 1) =
     fst (get_key (example_world\<lparr>hwkey_open := - 2\<rparr>) ''sign'' 1) \<and>
   fst (get_key (example_world\<lparr>hwkey_open := - 2\<rparr>) ''sign'' 1) =
     fst (get_key (example_world\<lparr>hwkey_get_keyslot_data := \<lambda>s name buf k. (- 2, buf, k)\<rparr>)
            ''sign'' 1)"
  by (simp add: get_key_def example_world_def kMaximumKeySize_def)

text \<open>
  C9, amended. Each of the three failures of \<^verbatim>\<open>get_key\<close> returns the empty tuple, the
  null buffer with size 0, and no error value or status code reaches the caller. The
  failures differ in the line logged and in the calls made: a failed allocation logs it
  and calls nothing; a failed open logs the status of the open; a failed fetch logs the
  key id and the status of the fetch, after the session is closed.
\<close>

theorem get_key_failures:
  "(new_nothrow w 128 = None \<longrightarrow>
      get_key w op key_id = ((None, 0), [New 128, LogFailedAlloc])) \<and>
   (new_nothrow w 128 \<noteq> None \<and> hwkey_open w < 0 \<longrightarrow>
      get_key w op key_id =
        ((None, 0), [New 128, Open (hwkey_open w), LogFailedConnect (hwkey_open w)])) \<and>
   (\<forall>buf0 rc buf k. new_nothrow w 128 = Some buf0 \<and> 0 \<le> hwkey_open w \<and>
      hwkey_get_keyslot_data w (word_of_int (hwkey_open w)) (c_str (key_slot op key_id)) buf0 128 =
        (rc, buf, k) \<and> rc < 0 \<longrightarrow>
      get_key w op key_id =
        ((None, 0),
         [New 128, Open (hwkey_open w),
          GetKeyslotData (word_of_int (hwkey_open w)) (c_str (key_slot op key_id)) 128,
          Close (word_of_int (hwkey_open w)), LogFailedGetKey key_id rc]))"
  by (auto simp: get_key_def kMaximumKeySize_def Let_def)

theorem get_key_failures_witness:
  "get_key (example_world\<lparr>new_nothrow := \<lambda>n. None\<rparr>) ''sign'' 1 =
     ((None, 0), [New 128, LogFailedAlloc]) \<and>
   get_key (example_world\<lparr>hwkey_open := - 2\<rparr>) ''sign'' 1 =
     ((None, 0), [New 128, Open (- 2), LogFailedConnect (- 2)]) \<and>
   get_key (example_world\<lparr>hwkey_get_keyslot_data := \<lambda>s name buf k. (- 2, buf, k)\<rparr>) ''sign'' 1 =
     ((None, 0),
      [New 128, Open 1, GetKeyslotData 1 ''com.android.trusty.apploader.sign.key.1'' 128,
       Close 1, LogFailedGetKey 1 (- 2)])"
proof -
  have name: "c_str (key_slot ''sign'' 1) = ''com.android.trusty.apploader.sign.key.1''"
    by code_simp
  from
    get_key_failures [where w = "example_world\<lparr>new_nothrow := \<lambda>n. None\<rparr>"
      and op = "''sign''" and key_id = 1]
    get_key_failures [where w = "example_world\<lparr>hwkey_open := - 2\<rparr>"
      and op = "''sign''" and key_id = 1]
    get_key_failures [where w = "example_world\<lparr>hwkey_get_keyslot_data := \<lambda>s name buf k. (- 2, buf, k)\<rparr>"
      and op = "''sign''" and key_id = 1]
  show ?thesis
    by (simp add: example_world_def name)
qed

end
